theory Spec2Isabelle
  imports Complex_Main
begin

section \<open>Python strings\<close>

text \<open>
  A Python \<^verbatim>\<open>str\<close> is a sequence of Unicode code points, so it is modelled as a list of
  natural numbers. \<open>py\<close> turns an ASCII literal of the source into that form.
\<close>

type_synonym pystr = "nat list"

definition py :: "string \<Rightarrow> pystr" where
  "py s = map of_char s"

text \<open>
  \<^verbatim>\<open>str.strip()\<close> without argument removes the characters for which \<^verbatim>\<open>str.isspace\<close>
  holds: U+0009..U+000D, U+001C..U+0020, U+0085, U+00A0, U+1680, U+2000..U+200A, U+2028,
  U+2029, U+202F, U+205F and U+3000.
\<close>

definition isspace :: "nat \<Rightarrow> bool" where
  "isspace c = (9 \<le> c \<and> c \<le> 13 \<or> 28 \<le> c \<and> c \<le> 32 \<or> c = 133 \<or> c = 160 \<or> c = 5760
      \<or> 8192 \<le> c \<and> c \<le> 8202 \<or> c = 8232 \<or> c = 8233 \<or> c = 8239 \<or> c = 8287 \<or> c = 12288)"

definition lstrip :: "pystr \<Rightarrow> pystr" where
  "lstrip s = dropWhile isspace s"

definition rstrip :: "pystr \<Rightarrow> pystr" where
  "rstrip s = rev (dropWhile isspace (rev s))"

definition strip :: "pystr \<Rightarrow> pystr" where
  "strip s = lstrip (rstrip s)"

text \<open>\<^verbatim>\<open>s.rstrip(chars)\<close> removes the longest suffix made of characters of \<^verbatim>\<open>chars\<close>.\<close>

definition rstrip_chars :: "pystr \<Rightarrow> pystr \<Rightarrow> pystr" where
  "rstrip_chars chars s = rev (dropWhile (\<lambda>c. List.member chars c) (rev s))"

text \<open>
  \<^verbatim>\<open>str.lower()\<close>, character by character. The ASCII capitals map to their small letters.
  U+0130 and U+212A (the Kelvin sign) are the two code points outside ASCII whose lower-case
  image contains an ASCII letter. The image of every other code point outside ASCII lies
  outside ASCII and is not tabulated here (the code point stands for it): the program
  compares the lowered text with the ASCII text \<^verbatim>\<open>select\<close> only.
\<close>

definition lower_cp :: "nat \<Rightarrow> pystr" where
  "lower_cp c = (if 65 \<le> c \<and> c \<le> 90 then [c + 32]
                 else if c = 304 then [105, 775]
                 else if c = 8490 then [107]
                 else [c])"

definition lower :: "pystr \<Rightarrow> pystr" where
  "lower s = concat (map lower_cp s)"

definition startswith :: "pystr \<Rightarrow> pystr \<Rightarrow> bool" where
  "startswith s p = (take (length p) s = p)"

section \<open>The query gate of \<^verbatim>\<open>main\<close>\<close>

text \<open>
  Lines 182 to 191 of \<^verbatim>\<open>main\<close> decide whether the text of the input field is run:
  \<^verbatim>\<open>
  query = st.session_state.sql_input.strip()
  if not query: st.warning(...)
  else:
      query = query.rstrip(";").strip()
      if not query.lower().startswith("select"): st.error(...)
      else: ... run_query(query) ...
  \<close>
\<close>

datatype gate_result = EmptyQuery | DisallowedStatement | Approved pystr

definition query_gate :: "pystr \<Rightarrow> gate_result" where
  "query_gate sql_input =
     (let query = strip sql_input in
      if query = [] then EmptyQuery
      else let query' = strip (rstrip_chars (py '';'') query) in
        if \<not> startswith (lower query') (py ''select'') then DisallowedStatement
        else Approved query')"

section \<open>The store\<close>

text \<open>
  The store is the SQLite file \<^verbatim>\<open>learn_sql.db\<close>. The program names two tables in it,
  \<^verbatim>\<open>users\<close> and \<^verbatim>\<open>orders\<close>; a database gives for each of them the table, if it exists.
  A table has its declared columns, its declared foreign keys (declared only: SQLite
  enforces none unless asked to), its rows in rowid order, and the counter that
  \<^verbatim>\<open>AUTOINCREMENT\<close> keeps for it in \<^verbatim>\<open>sqlite_sequence\<close>, which is deleted with the table.
\<close>

datatype sqlval = SqlNull | SqlInt int | SqlReal real | SqlText pystr

record column =
  col_name :: pystr
  col_type :: pystr
  col_notnull :: bool
  col_pk :: bool

record table =
  tab_columns :: "column list"
  tab_fkeys :: "(pystr \<times> pystr \<times> pystr) list"
  tab_rows :: "sqlval list list"
  tab_seq :: int

datatype table_name = Users | Orders

fun ident :: "table_name \<Rightarrow> pystr" where
  "ident Users = py ''users''"
| "ident Orders = py ''orders''"

type_synonym database = "table_name \<Rightarrow> table option"

definition empty_database :: database where
  "empty_database = (\<lambda>t. None)"

datatype error = OperationalError pystr | IntegrityError pystr | KeyError sqlval
  | OtherError pystr

text \<open>\<^verbatim>\<open>str(exc)\<close>; for a \<^verbatim>\<open>KeyError\<close> it is the \<^verbatim>\<open>repr\<close> of the key, which no claim reads.\<close>

fun str_exc :: "error \<Rightarrow> pystr" where
  "str_exc (OperationalError m) = m"
| "str_exc (IntegrityError m) = m"
| "str_exc (OtherError m) = m"
| "str_exc (KeyError k) = (case k of SqlText s \<Rightarrow> py [CHR 0x27] @ s @ py [CHR 0x27] | _ \<Rightarrow> [])"

definition bind_res :: "error + 'a \<Rightarrow> ('a \<Rightarrow> error + 'b) \<Rightarrow> error + 'b" where
  "bind_res r f = (case r of Inl e \<Rightarrow> Inl e | Inr x \<Rightarrow> f x)"

subsection \<open>The statements that \<^verbatim>\<open>reset_db\<close> executes\<close>

definition lookup_table :: "table_name \<Rightarrow> database \<Rightarrow> error + table" where
  "lookup_table t db = (case db t of
       None \<Rightarrow> Inl (OperationalError (py ''no such table: '' @ ident t))
     | Some tb \<Rightarrow> Inr tb)"

text \<open>\<^verbatim>\<open>DROP TABLE IF EXISTS t\<close>\<close>

definition drop_table_if_exists :: "table_name \<Rightarrow> database \<Rightarrow> database" where
  "drop_table_if_exists t db = db(t := None)"

text \<open>\<^verbatim>\<open>CREATE TABLE t(...)\<close>\<close>

definition create_table ::
  "table_name \<Rightarrow> column list \<Rightarrow> (pystr \<times> pystr \<times> pystr) list \<Rightarrow> database \<Rightarrow> error + database" where
  "create_table t cols fks db = (case db t of
       Some tb \<Rightarrow> Inl (OperationalError (py ''table '' @ ident t @ py '' already exists''))
     | None \<Rightarrow> Inr (db(t \<mapsto> \<lparr>tab_columns = cols, tab_fkeys = fks, tab_rows = [], tab_seq = 0\<rparr>)))"

text \<open>
  A column of type \<^verbatim>\<open>REAL\<close> stores an integer as the floating-point number of the same
  value. The amounts of the program are integers far below \<open>2 ^ 53\<close>, which a double holds
  exactly, so the stored number is modelled by the real number. The program binds no
  other value whose storage class differs from its column's.
\<close>

definition apply_affinity :: "pystr \<Rightarrow> sqlval \<Rightarrow> sqlval" where
  "apply_affinity ty v = (case v of
       SqlInt n \<Rightarrow> if ty = py ''REAL'' then SqlReal (of_int n) else v
     | _ \<Rightarrow> v)"

text \<open>The primary keys in a table: the integers in its \<^verbatim>\<open>INTEGER PRIMARY KEY\<close> column.\<close>

definition rowids :: "table \<Rightarrow> int list" where
  "rowids tb = concat (map (\<lambda>r. concat (map (\<lambda>(c, v). case v of
       SqlInt i \<Rightarrow> if col_pk c then [i] else [] | _ \<Rightarrow> []) (zip (tab_columns tb) r))) (tab_rows tb))"

text \<open>
  With \<^verbatim>\<open>AUTOINCREMENT\<close> the new rowid is one more than the largest rowid the table has
  ever held.
\<close>

definition next_rowid :: "table \<Rightarrow> int" where
  "next_rowid tb = fold max (rowids tb) (tab_seq tb) + 1"

text \<open>
  The cell of a new row in column \<open>c\<close>: the new rowid in the primary key, the bound
  parameter (after the column's affinity) in a named column, \<^verbatim>\<open>NULL\<close> elsewhere; a
  \<^verbatim>\<open>NULL\<close> in a \<^verbatim>\<open>NOT NULL\<close> column is refused.
\<close>

definition new_cell :: "table_name \<Rightarrow> int \<Rightarrow> (pystr \<times> sqlval) list \<Rightarrow> column \<Rightarrow> error + sqlval" where
  "new_cell t rid bound c =
     (let v = (if col_pk c then SqlInt rid
               else case map_of bound (col_name c) of
                      None \<Rightarrow> SqlNull
                    | Some x \<Rightarrow> apply_affinity (col_type c) x) in
      if col_notnull c \<and> v = SqlNull
      then Inl (IntegrityError (py ''NOT NULL constraint failed: '' @ ident t @ py ''.'' @ col_name c))
      else Inr v)"

fun sequence_res :: "(error + 'a) list \<Rightarrow> error + 'a list" where
  "sequence_res [] = Inr []"
| "sequence_res (r # rs) = bind_res r (\<lambda>x. bind_res (sequence_res rs) (\<lambda>xs. Inr (x # xs)))"

text \<open>\<^verbatim>\<open>INSERT INTO t (names) VALUES (?, ...)\<close> with one tuple of parameters.\<close>

definition insert_row :: "table_name \<Rightarrow> pystr list \<Rightarrow> sqlval list \<Rightarrow> database \<Rightarrow> error + database" where
  "insert_row t names params db =
     bind_res (lookup_table t db) (\<lambda>tb.
       if length params \<noteq> length names
       then Inl (OtherError (py ''Incorrect number of bindings supplied''))
       else let rid = next_rowid tb in
         bind_res (sequence_res (map (new_cell t rid (zip names params)) (tab_columns tb))) (\<lambda>r.
           Inr (db(t \<mapsto> tb\<lparr>tab_rows := tab_rows tb @ [r], tab_seq := rid\<rparr>))))"

text \<open>\<^verbatim>\<open>cur.executemany(sql, seq)\<close>: the statement once for each tuple, in order.\<close>

fun executemany_insert :: "table_name \<Rightarrow> pystr list \<Rightarrow> sqlval list list \<Rightarrow> database \<Rightarrow> error + database" where
  "executemany_insert t names [] db = Inr db"
| "executemany_insert t names (p # ps) db =
     bind_res (insert_row t names p db) (executemany_insert t names ps)"

text \<open>\<^verbatim>\<open>SELECT c1, ..., cn FROM t\<close> followed by \<^verbatim>\<open>fetchall()\<close>: the rows in rowid order.\<close>

definition select_columns :: "pystr list \<Rightarrow> table_name \<Rightarrow> database \<Rightarrow> error + sqlval list list" where
  "select_columns names t db =
     bind_res (lookup_table t db) (\<lambda>tb.
       sequence_res (map (\<lambda>r. sequence_res (map (\<lambda>n.
           case map_of (zip (map col_name (tab_columns tb)) r) n of
             None \<Rightarrow> Inl (OperationalError (py ''no such column: '' @ n))
           | Some v \<Rightarrow> Inr v) names)) (tab_rows tb)))"

section \<open>The operations on the store\<close>

text \<open>
  The world of the program: the file \<^verbatim>\<open>DB_FILE\<close> (\<open>None\<close> when it does not exist, which
  is what \<^verbatim>\<open>os.path.exists\<close> tests) and the number of connections that were opened and
  not closed since.
\<close>

record world =
  db_file :: "database option"
  open_conns :: nat

text \<open>
  \<^verbatim>\<open>sqlite3.connect(DB_FILE)\<close> opens the file and creates it, as a database without
  tables, when it does not exist. The result is the database the connection sees and
  the world with the connection open. A file that cannot be opened is not modelled.
\<close>

definition get_connection :: "world \<Rightarrow> database \<times> world" where
  "get_connection w =
     (let db = (case db_file w of None \<Rightarrow> empty_database | Some d \<Rightarrow> d) in
      (db, w\<lparr>db_file := Some db, open_conns := Suc (open_conns w)\<rparr>))"

text \<open>
  A \<^verbatim>\<open>sqlite3.Connection\<close> used as a context manager commits the transaction when the
  block ends normally and rolls it back when the block raises. It does not close the
  connection (the documentation of \<^verbatim>\<open>sqlite3\<close> says so), and \<^verbatim>\<open>app.py\<close> calls
  \<^verbatim>\<open>close()\<close> nowhere: no operation below decrements \<open>open_conns\<close>.
\<close>

definition users_columns :: "column list" where
  "users_columns =
     [\<lparr>col_name = py ''id'', col_type = py ''INTEGER'', col_notnull = False, col_pk = True\<rparr>,
      \<lparr>col_name = py ''name'', col_type = py ''TEXT'', col_notnull = True, col_pk = False\<rparr>,
      \<lparr>col_name = py ''email'', col_type = py ''TEXT'', col_notnull = False, col_pk = False\<rparr>,
      \<lparr>col_name = py ''city'', col_type = py ''TEXT'', col_notnull = False, col_pk = False\<rparr>]"

definition orders_columns :: "column list" where
  "orders_columns =
     [\<lparr>col_name = py ''id'', col_type = py ''INTEGER'', col_notnull = False, col_pk = True\<rparr>,
      \<lparr>col_name = py ''user_id'', col_type = py ''INTEGER'', col_notnull = True, col_pk = False\<rparr>,
      \<lparr>col_name = py ''amount'', col_type = py ''REAL'', col_notnull = True, col_pk = False\<rparr>,
      \<lparr>col_name = py ''status'', col_type = py ''TEXT'', col_notnull = True, col_pk = False\<rparr>,
      \<lparr>col_name = py ''created_at'', col_type = py ''TEXT'', col_notnull = True, col_pk = False\<rparr>]"

definition users :: "sqlval list list" where
  "users =
     [[SqlText (py ''Adarsh''), SqlText (py ''adarsh@mail.com''), SqlText (py ''Goa'')],
      [SqlText (py ''Pranjali''), SqlText (py ''pranjali@mail.com''), SqlText (py ''Mumbai'')],
      [SqlText (py ''Rahul''), SqlText (py ''rahul@mail.com''), SqlText (py ''Pune'')],
      [SqlText (py ''Amit''), SqlText (py ''amit@mail.com''), SqlText (py ''Delhi'')]]"

text \<open>
  \<^verbatim>\<open>id_map = {name: user_id for user_id, name in cur.fetchall()}\<close>: a later row replaces
  an earlier one of the same name. \<^verbatim>\<open>id_map[k]\<close> raises \<^verbatim>\<open>KeyError\<close> for a missing key.
\<close>

definition id_map_of :: "sqlval list list \<Rightarrow> (sqlval \<rightharpoonup> sqlval)" where
  "id_map_of fetched = fold (\<lambda>r m. case r of [user_id, name] \<Rightarrow> m(name \<mapsto> user_id) | _ \<Rightarrow> m)
     fetched Map.empty"

definition getitem :: "(sqlval \<rightharpoonup> sqlval) \<Rightarrow> sqlval \<Rightarrow> error + sqlval" where
  "getitem m k = (case m k of None \<Rightarrow> Inl (KeyError k) | Some v \<Rightarrow> Inr v)"

text \<open>The list \<^verbatim>\<open>orders\<close> of lines 86 to 94; its tuples are built in order.\<close>

definition orders :: "(sqlval \<rightharpoonup> sqlval) \<Rightarrow> error + sqlval list list" where
  "orders id_map = sequence_res (map (\<lambda>(name, amount, status, created_at).
       bind_res (getitem id_map (SqlText (py name))) (\<lambda>user_id.
         Inr [user_id, SqlInt amount, SqlText (py status), SqlText (py created_at)]))
     [(''Adarsh'', 500, ''PAID'', ''2026-01-10''),
      (''Adarsh'', 999, ''PENDING'', ''2026-01-11''),
      (''Pranjali'', 1299, ''PAID'', ''2026-01-11''),
      (''Rahul'', 2500, ''CANCELLED'', ''2026-01-12''),
      (''Amit'', 799, ''PAID'', ''2026-01-12''),
      (''Pranjali'', 1500, ''PENDING'', ''2026-01-13''),
      (''Rahul'', 1800, ''PAID'', ''2026-01-13'')])"

text \<open>The statements of the body of \<^verbatim>\<open>reset_db\<close>, lines 47 to 100, on the database.\<close>

definition reset_statements :: "database \<Rightarrow> error + database" where
  "reset_statements db =
     (let db = drop_table_if_exists Orders db;
          db = drop_table_if_exists Users db in
      bind_res (create_table Users users_columns [] db) (\<lambda>db.
      bind_res (create_table Orders orders_columns [(py ''user_id'', py ''users'', py ''id'')] db) (\<lambda>db.
      bind_res (executemany_insert Users [py ''name'', py ''email'', py ''city''] users db) (\<lambda>db.
      bind_res (select_columns [py ''id'', py ''name''] Users db) (\<lambda>fetched.
      bind_res (orders (id_map_of fetched)) (\<lambda>orders.
      executemany_insert Orders [py ''user_id'', py ''amount'', py ''status'', py ''created_at'']
        orders db))))))"

text \<open>
  \<^verbatim>\<open>reset_db\<close>: the statements on a new connection, then the commit. When a statement
  raises, the exception leaves \<^verbatim>\<open>reset_db\<close>; the content of the file after that is not
  modelled (\<open>reset_db_total\<close> below: no statement raises).
\<close>

definition reset_db :: "world \<Rightarrow> error + world" where
  "reset_db w =
     (let (db, w) = get_connection w in
      bind_res (reset_statements db) (\<lambda>db. Inr (w\<lparr>db_file := Some db\<rparr>)))"

definition init_db :: "world \<Rightarrow> error + world" where
  "init_db w = (if db_file w = None then reset_db w else Inr w)"

subsection \<open>Queries\<close>

text \<open>
  A \<^verbatim>\<open>DataFrame\<close>: its columns in order, each with its name and its values. \<^verbatim>\<open>len(df)\<close>
  is the number of rows (every result set of the engine has a column).
\<close>

type_synonym dataframe = "(pystr \<times> sqlval list) list"

fun len_df :: "dataframe \<Rightarrow> nat" where
  "len_df [] = 0"
| "len_df ((n, vs) # cs) = length vs"

text \<open>
  \<^verbatim>\<open>pd.read_sql_query(query, conn)\<close> hands the text to SQLite. The engine is outside the
  program, so it is a parameter: from the database and the text, the exception it raises
  or the frame it returns. \<^verbatim>\<open>main\<close> runs only texts that start with \<^verbatim>\<open>select\<close>; SQLite
  executes one statement for each call and a \<^verbatim>\<open>SELECT\<close> writes nothing, so the file is
  left as it is.
\<close>

type_synonym engine = "database \<Rightarrow> pystr \<Rightarrow> error + dataframe"

definition run_query :: "engine \<Rightarrow> pystr \<Rightarrow> world \<Rightarrow> (error + dataframe) \<times> world" where
  "run_query read_sql_query query w =
     (let (db, w) = get_connection w in (read_sql_query db query, w))"

text \<open>
  \<^verbatim>\<open>PRAGMA table_info(t)\<close>: one row for each column of the table in the order of
  declaration, and no row when there is no such table.
\<close>

definition table_info :: "table_name \<Rightarrow> database \<Rightarrow> dataframe" where
  "table_info t db =
     (let cols = (case db t of None \<Rightarrow> [] | Some tb \<Rightarrow> tab_columns tb) in
      [(py ''cid'', map (\<lambda>i. SqlInt (int i)) [0..<length cols]),
       (py ''name'', map (\<lambda>c. SqlText (col_name c)) cols),
       (py ''type'', map (\<lambda>c. SqlText (col_type c)) cols),
       (py ''notnull'', map (\<lambda>c. SqlInt (if col_notnull c then 1 else 0)) cols),
       (py ''dflt_value'', map (\<lambda>c. SqlNull) cols),
       (py ''pk'', map (\<lambda>c. SqlInt (if col_pk c then 1 else 0)) cols)])"

text \<open>\<^verbatim>\<open>df[[n1, ..., nk]]\<close>: the named columns, in the order asked for.\<close>

definition getitem_columns :: "pystr list \<Rightarrow> dataframe \<Rightarrow> error + dataframe" where
  "getitem_columns names df = sequence_res (map (\<lambda>n.
       case map_of df n of None \<Rightarrow> Inl (KeyError (SqlText n)) | Some vs \<Rightarrow> Inr (n, vs)) names)"

text \<open>\<^verbatim>\<open>get_schema_summary\<close>: the dictionary, in the order of insertion.\<close>

definition get_schema_summary :: "world \<Rightarrow> (error + (pystr \<times> dataframe) list) \<times> world" where
  "get_schema_summary w =
     (let (db, w) = get_connection w in
      (sequence_res (map (\<lambda>t.
          bind_res (getitem_columns [py ''name'', py ''type''] (table_info t db)) (\<lambda>df.
            Inr (ident t, df))) [Users, Orders]), w))"

section \<open>The handlers of \<^verbatim>\<open>main\<close>\<close>

text \<open>What the page shows: the calls of \<^verbatim>\<open>st.warning\<close>, \<^verbatim>\<open>st.error\<close>, \<^verbatim>\<open>st.success\<close>, \<^verbatim>\<open>st.dataframe\<close>.\<close>

datatype ui = StWarning pystr | StError pystr | StSuccess pystr | StDataframe dataframe

text \<open>\<^verbatim>\<open>str(n)\<close> for a length.\<close>

fun str_nat :: "nat \<Rightarrow> pystr" where
  "str_nat n = (if n < 10 then [48 + n] else str_nat (n div 10) @ [48 + n mod 10])"

declare str_nat.simps [simp del]

text \<open>
  The branch \<^verbatim>\<open>if run_clicked\<close>, lines 181 to 198. An exception of \<^verbatim>\<open>run_query\<close> is caught
  by \<^verbatim>\<open>except Exception\<close> and its text is shown. The last character of the success
  message is U+2705.
\<close>

definition run_clicked :: "engine \<Rightarrow> pystr \<Rightarrow> world \<Rightarrow> ui list \<times> world" where
  "run_clicked read_sql_query sql_input w = (case query_gate sql_input of
       EmptyQuery \<Rightarrow> ([StWarning (py ''Please enter a SQL query.'')], w)
     | DisallowedStatement \<Rightarrow>
         ([StError (py ''Only SELECT queries are allowed in this beginner app (for safety).'')], w)
     | Approved query \<Rightarrow> (case run_query read_sql_query query w of
           (Inr df, w') \<Rightarrow>
             ([StDataframe df,
               StSuccess (py ''Returned '' @ str_nat (len_df df) @ py '' rows '' @ [9989])], w')
         | (Inl exc, w') \<Rightarrow> ([StError (str_exc exc)], w')))"

text \<open>The branch \<^verbatim>\<open>if reset_clicked\<close>, lines 177 to 179.\<close>

definition reset_clicked :: "world \<Rightarrow> error + ui list \<times> world" where
  "reset_clicked w = bind_res (reset_db w) (\<lambda>w'.
     Inr ([StSuccess (py ''Database reset done '' @ [9989])], w'))"

section \<open>What the specification says, for comparison\<close>

text \<open>
  The gate in the words of the specification: trim; reject the empty text; strip one
  trailing semicolon; trim again; approve the text when it starts with \<^verbatim>\<open>select\<close> in any
  case of the letters.
\<close>

definition strip_one_semicolon :: "pystr \<Rightarrow> pystr" where
  "strip_one_semicolon s = (if s \<noteq> [] \<and> last s = 59 then butlast s else s)"

definition authorize_spec :: "pystr \<Rightarrow> gate_result" where
  "authorize_spec raw_query =
     (let t = strip raw_query in
      if t = [] then EmptyQuery
      else let u = strip (strip_one_semicolon t) in
        if startswith (lower u) (py ''select'') then Approved u else DisallowedStatement)"

text \<open>The same with every trailing semicolon stripped, one after the other.\<close>

function strip_semicolons :: "pystr \<Rightarrow> pystr" where
  "strip_semicolons s = (if s \<noteq> [] \<and> last s = 59 then strip_semicolons (butlast s) else s)"
  by pat_completeness auto
termination
  by (relation "measure length") auto

declare strip_semicolons.simps [simp del]

definition authorize_all_semicolons :: "pystr \<Rightarrow> gate_result" where
  "authorize_all_semicolons raw_query =
     (let t = strip raw_query in
      if t = [] then EmptyQuery
      else let u = strip (strip_semicolons t) in
        if startswith (lower u) (py ''select'') then Approved u else DisallowedStatement)"

section \<open>Reading the store\<close>

text \<open>
  The meaning of \<^verbatim>\<open>SELECT COUNT(*) AS a FROM t WHERE c = v\<close>: one row with the number of
  rows of \<open>t\<close> whose cell in column \<open>c\<close> is \<open>v\<close>.
\<close>

definition select_count_where :: "pystr \<Rightarrow> table_name \<Rightarrow> pystr \<Rightarrow> sqlval \<Rightarrow> database \<Rightarrow> error + dataframe" where
  "select_count_where a t c v db =
     bind_res (select_columns [c] t db) (\<lambda>cells.
       Inr [(a, [SqlInt (int (length (filter (\<lambda>r. r = [v]) cells)))])])"

text \<open>
  The meaning of
  \<^verbatim>\<open>SELECT u.name, o.amount, o.status, o.created_at FROM orders o JOIN users u ON u.id = o.user_id\<close>:
  each order with the name of its account.
\<close>

definition orders_with_names :: "database \<Rightarrow> error + sqlval list list" where
  "orders_with_names db =
     bind_res (select_columns [py ''user_id'', py ''amount'', py ''status'', py ''created_at''] Orders db) (\<lambda>os.
     bind_res (select_columns [py ''id'', py ''name''] Users db) (\<lambda>us.
       Inr (concat (map (\<lambda>ord. concat (map (\<lambda>u. case (ord, u) of
           ([user_id, amount, status, created_at], [uid, name]) \<Rightarrow>
              if uid = user_id then [[name, amount, status, created_at]] else []
         | _ \<Rightarrow> []) us)) os))))"

definition orders_of_account :: "pystr \<Rightarrow> database \<Rightarrow> error + sqlval list list" where
  "orders_of_account n db = bind_res (orders_with_names db) (\<lambda>rs.
     Inr (filter (\<lambda>r. take 1 r = [SqlText n]) rs))"

definition orders_of_status :: "pystr \<Rightarrow> database \<Rightarrow> error + sqlval list list" where
  "orders_of_status s db = bind_res (orders_with_names db) (\<lambda>rs.
     Inr (filter (\<lambda>r. take 1 (drop 2 r) = [SqlText s]) rs))"

text \<open>The rows of a table, when it exists.\<close>

definition rows_of :: "table_name \<Rightarrow> database \<Rightarrow> sqlval list list option" where
  "rows_of t db = map_option tab_rows (db t)"

text \<open>The database that the fixtures of \<^verbatim>\<open>reset_db\<close> describe, written out.\<close>

definition seed_database :: database where
  "seed_database = Map.empty(
     Users \<mapsto> \<lparr>tab_columns = users_columns, tab_fkeys = [],
       tab_rows =
         [[SqlInt 1, SqlText (py ''Adarsh''), SqlText (py ''adarsh@mail.com''), SqlText (py ''Goa'')],
          [SqlInt 2, SqlText (py ''Pranjali''), SqlText (py ''pranjali@mail.com''), SqlText (py ''Mumbai'')],
          [SqlInt 3, SqlText (py ''Rahul''), SqlText (py ''rahul@mail.com''), SqlText (py ''Pune'')],
          [SqlInt 4, SqlText (py ''Amit''), SqlText (py ''amit@mail.com''), SqlText (py ''Delhi'')]],
       tab_seq = 4\<rparr>,
     Orders \<mapsto> \<lparr>tab_columns = orders_columns,
       tab_fkeys = [(py ''user_id'', py ''users'', py ''id'')],
       tab_rows =
         [[SqlInt 1, SqlInt 1, SqlReal 500, SqlText (py ''PAID''), SqlText (py ''2026-01-10'')],
          [SqlInt 2, SqlInt 1, SqlReal 999, SqlText (py ''PENDING''), SqlText (py ''2026-01-11'')],
          [SqlInt 3, SqlInt 2, SqlReal 1299, SqlText (py ''PAID''), SqlText (py ''2026-01-11'')],
          [SqlInt 4, SqlInt 3, SqlReal 2500, SqlText (py ''CANCELLED''), SqlText (py ''2026-01-12'')],
          [SqlInt 5, SqlInt 4, SqlReal 799, SqlText (py ''PAID''), SqlText (py ''2026-01-12'')],
          [SqlInt 6, SqlInt 2, SqlReal 1500, SqlText (py ''PENDING''), SqlText (py ''2026-01-13'')],
          [SqlInt 7, SqlInt 3, SqlReal 1800, SqlText (py ''PAID''), SqlText (py ''2026-01-13'')]],
       tab_seq = 7\<rparr>)"

text \<open>\<^verbatim>\<open>s.endswith(p)\<close>, to say how a text ends.\<close>

definition endswith :: "pystr \<Rightarrow> pystr \<Rightarrow> bool" where
  "endswith s p = startswith (rev s) (rev p)"

text \<open>The columns that the store declares for a table: none when the table is missing.\<close>

definition declared_columns :: "table_name \<Rightarrow> world \<Rightarrow> column list" where
  "declared_columns t w = (case db_file w of None \<Rightarrow> [] | Some db \<Rightarrow>
     (case db t of None \<Rightarrow> [] | Some tb \<Rightarrow> tab_columns tb))"

text \<open>The text \<^verbatim>\<open>SELECT COUNT(*) AS total_paid FROM orders WHERE status='PAID'\<close>.\<close>

definition paid_query :: pystr where
  "paid_query =
     py ''SELECT COUNT(*) AS total_paid FROM orders WHERE status='' @ [39] @ py ''PAID'' @ [39]"

subsection \<open>Engines for the examples\<close>

text \<open>An engine that refuses every text with a given message.\<close>

definition refusing_engine :: "pystr \<Rightarrow> engine" where
  "refusing_engine msg db query = Inl (OperationalError msg)"

text \<open>An engine that refuses every text and gives the text it received as the message.\<close>

definition echo_engine :: engine where
  "echo_engine db query = Inl (OtherError query)"

text \<open>An engine that evaluates \<open>paid_query\<close> and refuses every other text.\<close>

definition counting_engine :: engine where
  "counting_engine db query = (if query = paid_query
     then select_count_where (py ''total_paid'') Orders (py ''status'') (SqlText (py ''PAID'')) db
     else Inl (OperationalError (py ''not modelled'')))"

section \<open>Evaluation\<close>

lemma py_simps: "py [] = []" "py (c # cs) = of_char c # py cs"
  by (simp_all add: py_def)

lemmas gate_defs = query_gate_def strip_def lstrip_def rstrip_def rstrip_chars_def isspace_def
  lower_def lower_cp_def startswith_def

lemmas statement_defs = bind_res_def create_table_def insert_row_def lookup_table_def
  next_rowid_def rowids_def new_cell_def apply_affinity_def select_columns_def
  id_map_of_def getitem_def

lemma dropped_tables:
  "drop_table_if_exists Users (drop_table_if_exists Orders db) = empty_database"
  by (rule ext) (case_tac x; simp add: drop_table_if_exists_def empty_database_def)

lemma reset_statements_seed: "reset_statements db = Inr seed_database"
  unfolding reset_statements_def Let_def dropped_tables
  by (simp add: statement_defs empty_database_def users_def users_columns_def
      orders_columns_def orders_def seed_database_def py_simps)

lemma reset_db_total:
  "reset_db w = Inr (w\<lparr>db_file := Some seed_database, open_conns := Suc (open_conns w)\<rparr>)"
  by (simp add: reset_db_def get_connection_def Let_def reset_statements_seed bind_res_def)

section \<open>The reset\<close>

text \<open>
  Claim C1. Whatever the store held before (no file, a file without tables, tables with
  any columns and rows), \<^verbatim>\<open>reset_db\<close> succeeds and leaves exactly the seed data: the
  four users Adarsh, Pranjali, Rahul and Amit with their addresses and cities, and the
  seven orders with the amounts, statuses and dates of the fixtures. The account named
  Adarsh has exactly two orders, 500 PAID of 2026-01-10 and 999 PENDING of 2026-01-11.
  The state after the reset does not depend on the state before, so no earlier row
  survives.
\<close>

theorem reset_db_exactly_seed:
  "reset_db w = Inr (w\<lparr>db_file := Some seed_database, open_conns := Suc (open_conns w)\<rparr>)
   \<and> rows_of Users seed_database = Some
       [[SqlInt 1, SqlText (py ''Adarsh''), SqlText (py ''adarsh@mail.com''), SqlText (py ''Goa'')],
        [SqlInt 2, SqlText (py ''Pranjali''), SqlText (py ''pranjali@mail.com''), SqlText (py ''Mumbai'')],
        [SqlInt 3, SqlText (py ''Rahul''), SqlText (py ''rahul@mail.com''), SqlText (py ''Pune'')],
        [SqlInt 4, SqlText (py ''Amit''), SqlText (py ''amit@mail.com''), SqlText (py ''Delhi'')]]
   \<and> rows_of Orders seed_database = Some
       [[SqlInt 1, SqlInt 1, SqlReal 500, SqlText (py ''PAID''), SqlText (py ''2026-01-10'')],
        [SqlInt 2, SqlInt 1, SqlReal 999, SqlText (py ''PENDING''), SqlText (py ''2026-01-11'')],
        [SqlInt 3, SqlInt 2, SqlReal 1299, SqlText (py ''PAID''), SqlText (py ''2026-01-11'')],
        [SqlInt 4, SqlInt 3, SqlReal 2500, SqlText (py ''CANCELLED''), SqlText (py ''2026-01-12'')],
        [SqlInt 5, SqlInt 4, SqlReal 799, SqlText (py ''PAID''), SqlText (py ''2026-01-12'')],
        [SqlInt 6, SqlInt 2, SqlReal 1500, SqlText (py ''PENDING''), SqlText (py ''2026-01-13'')],
        [SqlInt 7, SqlInt 3, SqlReal 1800, SqlText (py ''PAID''), SqlText (py ''2026-01-13'')]]
   \<and> orders_of_account (py ''Adarsh'') seed_database = Inr
       [[SqlText (py ''Adarsh''), SqlReal 500, SqlText (py ''PAID''), SqlText (py ''2026-01-10'')],
        [SqlText (py ''Adarsh''), SqlReal 999, SqlText (py ''PENDING''), SqlText (py ''2026-01-11'')]]"
proof (intro conjI)
  show "reset_db w = Inr (w\<lparr>db_file := Some seed_database, open_conns := Suc (open_conns w)\<rparr>)"
    by (rule reset_db_total)
  show "rows_of Users seed_database = Some
       [[SqlInt 1, SqlText (py ''Adarsh''), SqlText (py ''adarsh@mail.com''), SqlText (py ''Goa'')],
        [SqlInt 2, SqlText (py ''Pranjali''), SqlText (py ''pranjali@mail.com''), SqlText (py ''Mumbai'')],
        [SqlInt 3, SqlText (py ''Rahul''), SqlText (py ''rahul@mail.com''), SqlText (py ''Pune'')],
        [SqlInt 4, SqlText (py ''Amit''), SqlText (py ''amit@mail.com''), SqlText (py ''Delhi'')]]"
    by (simp add: rows_of_def seed_database_def)
  show "rows_of Orders seed_database = Some
       [[SqlInt 1, SqlInt 1, SqlReal 500, SqlText (py ''PAID''), SqlText (py ''2026-01-10'')],
        [SqlInt 2, SqlInt 1, SqlReal 999, SqlText (py ''PENDING''), SqlText (py ''2026-01-11'')],
        [SqlInt 3, SqlInt 2, SqlReal 1299, SqlText (py ''PAID''), SqlText (py ''2026-01-11'')],
        [SqlInt 4, SqlInt 3, SqlReal 2500, SqlText (py ''CANCELLED''), SqlText (py ''2026-01-12'')],
        [SqlInt 5, SqlInt 4, SqlReal 799, SqlText (py ''PAID''), SqlText (py ''2026-01-12'')],
        [SqlInt 6, SqlInt 2, SqlReal 1500, SqlText (py ''PENDING''), SqlText (py ''2026-01-13'')],
        [SqlInt 7, SqlInt 3, SqlReal 1800, SqlText (py ''PAID''), SqlText (py ''2026-01-13'')]]"
    by (simp add: rows_of_def seed_database_def)
  show "orders_of_account (py ''Adarsh'') seed_database = Inr
       [[SqlText (py ''Adarsh''), SqlReal 500, SqlText (py ''PAID''), SqlText (py ''2026-01-10'')],
        [SqlText (py ''Adarsh''), SqlReal 999, SqlText (py ''PENDING''), SqlText (py ''2026-01-11'')]]"
    by (simp add: orders_of_account_def orders_with_names_def statement_defs seed_database_def
        users_columns_def orders_columns_def py_simps)
qed

section \<open>The query gate\<close>

lemma set_semicolon: "set (py '';'') = {59}"
  by (simp add: py_simps)

lemma rstrip_chars_semicolons: "rstrip_chars (py '';'') s = strip_semicolons s"
proof (induction s rule: rev_induct)
  case Nil
  show ?case by (simp add: rstrip_chars_def strip_semicolons.simps)
next
  case (snoc x xs)
  have "strip_semicolons (xs @ [x]) = (if x = 59 then strip_semicolons xs else xs @ [x])"
    by (subst strip_semicolons.simps) simp
  moreover have "rstrip_chars (py '';'') (xs @ [x])
      = (if x = 59 then rstrip_chars (py '';'') xs else xs @ [x])"
    by (simp add: rstrip_chars_def set_semicolon)
  ultimately show ?case using snoc.IH by simp
qed

lemma query_gate_refines: "query_gate q = authorize_all_semicolons q"
  by (simp add: query_gate_def authorize_all_semicolons_def rstrip_chars_semicolons Let_def)

lemma strip_semicolons_once:
  assumes "\<not> endswith t (py '';;'')"
  shows "strip_semicolons t = strip_one_semicolon t"
proof (cases t rule: rev_cases)
  case Nil
  then show ?thesis by (simp add: strip_semicolons.simps strip_one_semicolon_def)
next
  case (snoc xs x)
  show ?thesis
  proof (cases "x = 59")
    case False
    with snoc show ?thesis by (simp add: strip_semicolons.simps strip_one_semicolon_def)
  next
    case True
    have "xs = [] \<or> last xs \<noteq> 59"
    proof (cases xs rule: rev_cases)
      case Nil
      then show ?thesis by simp
    next
      case (snoc ys y)
      with assms \<open>t = xs @ [x]\<close> True show ?thesis
        by (auto simp add: endswith_def startswith_def py_simps)
    qed
    then have "strip_semicolons xs = xs"
      by (subst strip_semicolons.simps) auto
    moreover have "strip_semicolons t = strip_semicolons xs"
      using snoc True by (subst strip_semicolons.simps) simp
    ultimately show ?thesis using snoc True by (simp add: strip_one_semicolon_def)
  qed
qed

lemma run_query_engine:
  "run_query eng u w = (eng (case db_file w of None \<Rightarrow> empty_database | Some d \<Rightarrow> d) u,
     w\<lparr>db_file := Some (case db_file w of None \<Rightarrow> empty_database | Some d \<Rightarrow> d),
       open_conns := Suc (open_conns w)\<rparr>)"
  by (simp add: run_query_def get_connection_def Let_def)

text \<open>
  Claim C2, as the specification states it, fails. The specification strips one trailing
  semicolon; \<^verbatim>\<open>query.rstrip(";")\<close> strips all of them. On \<^verbatim>\<open>SELECT 1;;\<close> the
  specification's gate approves \<^verbatim>\<open>SELECT 1;\<close> and the program's approves \<^verbatim>\<open>SELECT 1\<close>.
\<close>

theorem query_gate_one_semicolon_counterexample:
  "authorize_spec (py ''SELECT 1;;'') = Approved (py ''SELECT 1;'')
   \<and> query_gate (py ''SELECT 1;;'') = Approved (py ''SELECT 1'')
   \<and> query_gate (py ''SELECT 1;;'') \<noteq> authorize_spec (py ''SELECT 1;;'')"
  by (simp add: gate_defs authorize_spec_def strip_one_semicolon_def py_simps)

text \<open>
  Claim C2, amended. The gate trims the text and rejects it as empty when nothing is left;
  otherwise it strips every trailing semicolon, trims again, and approves the text when,
  lowered, it starts with \<^verbatim>\<open>select\<close>, rejecting it as a disallowed statement otherwise.
  It is the gate of the specification whenever the trimmed text does not end with two
  semicolons. The approved text is what \<^verbatim>\<open>run_query\<close> hands to the engine, unchanged,
  and the page shows what the engine returns for it.
\<close>

theorem query_gate_strips_all_semicolons:
  "query_gate q = authorize_all_semicolons q
   \<and> (\<not> endswith (strip q) (py '';;'') \<longrightarrow> query_gate q = authorize_spec q)
   \<and> (\<forall>u. query_gate q = Approved u \<longrightarrow>
        fst (run_query eng u w) = eng (case db_file w of None \<Rightarrow> empty_database | Some d \<Rightarrow> d) u
        \<and> run_clicked eng q w = (case run_query eng u w of
            (Inr df, w') \<Rightarrow> ([StDataframe df,
               StSuccess (py ''Returned '' @ str_nat (len_df df) @ py '' rows '' @ [9989])], w')
          | (Inl exc, w') \<Rightarrow> ([StError (str_exc exc)], w')))"
proof (intro conjI impI allI)
  show "query_gate q = authorize_all_semicolons q"
    by (rule query_gate_refines)
  show "query_gate q = authorize_spec q" if "\<not> endswith (strip q) (py '';;'')"
    using strip_semicolons_once [OF that]
    by (simp add: query_gate_refines authorize_all_semicolons_def authorize_spec_def Let_def)
  show "fst (run_query eng u w) = eng (case db_file w of None \<Rightarrow> empty_database | Some d \<Rightarrow> d) u"
    for u by (simp add: run_query_engine)
  show "run_clicked eng q w = (case run_query eng u w of
            (Inr df, w') \<Rightarrow> ([StDataframe df,
               StSuccess (py ''Returned '' @ str_nat (len_df df) @ py '' rows '' @ [9989])], w')
          | (Inl exc, w') \<Rightarrow> ([StError (str_exc exc)], w'))"
    if "query_gate q = Approved u" for u
    using that by (simp add: run_clicked_def)
qed

theorem query_gate_strips_all_semicolons_witness:
  "query_gate (py ''select 1;'') = authorize_all_semicolons (py ''select 1;'')
   \<and> \<not> endswith (strip (py ''select 1;'')) (py '';;'')
   \<and> query_gate (py ''select 1;'') = authorize_spec (py ''select 1;'')
   \<and> query_gate (py ''select 1;'') = Approved (py ''select 1'')
   \<and> run_clicked echo_engine (py ''select 1;'') \<lparr>db_file = Some empty_database, open_conns = 0\<rparr>
       = ([StError (py ''select 1'')], \<lparr>db_file = Some empty_database, open_conns = 1\<rparr>)"
proof -
  have g: "query_gate (py ''select 1;'') = Approved (py ''select 1'')"
    by (simp add: gate_defs py_simps)
  have e: "\<not> endswith (strip (py ''select 1;'')) (py '';;'')"
    by (simp add: endswith_def gate_defs py_simps)
  note t = query_gate_strips_all_semicolons [of "py ''select 1;''" echo_engine
      "\<lparr>db_file = Some empty_database, open_conns = 0\<rparr>"]
  from t have a: "query_gate (py ''select 1;'') = authorize_all_semicolons (py ''select 1;'')"
    by blast
  from t e have b: "query_gate (py ''select 1;'') = authorize_spec (py ''select 1;'')"
    by blast
  from t g have "run_clicked echo_engine (py ''select 1;'') \<lparr>db_file = Some empty_database, open_conns = 0\<rparr>
      = (case run_query echo_engine (py ''select 1'') \<lparr>db_file = Some empty_database, open_conns = 0\<rparr> of
            (Inr df, w') \<Rightarrow> ([StDataframe df,
               StSuccess (py ''Returned '' @ str_nat (len_df df) @ py '' rows '' @ [9989])], w')
          | (Inl exc, w') \<Rightarrow> ([StError (str_exc exc)], w'))"
    by blast
  then have c: "run_clicked echo_engine (py ''select 1;'') \<lparr>db_file = Some empty_database, open_conns = 0\<rparr>
       = ([StError (py ''select 1'')], \<lparr>db_file = Some empty_database, open_conns = 1\<rparr>)"
    by (simp add: run_query_engine echo_engine_def)
  from a e b g c show ?thesis by blast
qed

text \<open>
  Claim C6. The gate rejects the empty text and the text of three spaces as empty, and
  \<^verbatim>\<open>DELETE FROM users;\<close> and \<^verbatim>\<open>drop table orders\<close> as disallowed statements; with each of
  the four the page shows its message and the world is as before: no connection was
  opened and the file was not touched, whatever the engine. The gate approves
  \<^verbatim>\<open>  SELECT * FROM users \<close> as \<^verbatim>\<open>SELECT * FROM users\<close>, also when a semicolon follows.
\<close>

theorem query_gate_examples:
  "query_gate (py '''') = EmptyQuery
   \<and> query_gate (py ''   '') = EmptyQuery
   \<and> query_gate (py ''DELETE FROM users;'') = DisallowedStatement
   \<and> query_gate (py ''drop table orders'') = DisallowedStatement
   \<and> query_gate (py ''  SELECT * FROM users '') = Approved (py ''SELECT * FROM users'')
   \<and> query_gate (py ''  SELECT * FROM users; '') = Approved (py ''SELECT * FROM users'')
   \<and> run_clicked eng (py '''') w = ([StWarning (py ''Please enter a SQL query.'')], w)
   \<and> run_clicked eng (py ''   '') w = ([StWarning (py ''Please enter a SQL query.'')], w)
   \<and> run_clicked eng (py ''DELETE FROM users;'') w =
        ([StError (py ''Only SELECT queries are allowed in this beginner app (for safety).'')], w)
   \<and> run_clicked eng (py ''drop table orders'') w =
        ([StError (py ''Only SELECT queries are allowed in this beginner app (for safety).'')], w)"
proof -
  have 1: "query_gate (py '''') = EmptyQuery"
    by (simp add: gate_defs py_simps)
  have 2: "query_gate (py ''   '') = EmptyQuery"
    by (simp add: gate_defs py_simps)
  have 3: "query_gate (py ''DELETE FROM users;'') = DisallowedStatement"
    by (simp add: gate_defs py_simps)
  have 4: "query_gate (py ''drop table orders'') = DisallowedStatement"
    by (simp add: gate_defs py_simps)
  have 5: "query_gate (py ''  SELECT * FROM users '') = Approved (py ''SELECT * FROM users'')"
    by (simp add: gate_defs py_simps)
  have 6: "query_gate (py ''  SELECT * FROM users; '') = Approved (py ''SELECT * FROM users'')"
    by (simp add: gate_defs py_simps)
  show ?thesis
    by (simp only: 1 2 3 4 5 6 run_clicked_def gate_result.case simp_thms)
qed

lemma isspace_not_semicolon: "\<not> isspace 59"
  by (simp add: isspace_def)

lemma strip_semicolons_between:
  assumes l: "\<forall>c\<in>set l. isspace c" and r: "\<forall>c\<in>set r. isspace c" and n: "0 < n"
  shows "strip (l @ replicate n 59 @ r) = replicate n 59"
proof -
  obtain m where m: "n = Suc m" using n by (cases n) auto
  have "dropWhile isspace (rev r @ rev (l @ replicate n 59)) = dropWhile isspace (rev (l @ replicate n 59))"
    using r by (intro dropWhile_append2) auto
  also have "\<dots> = rev (l @ replicate n 59)"
    using n by (simp add: dropWhile_eq_self_iff hd_rev isspace_not_semicolon)
  finally have "rstrip (l @ replicate n 59 @ r) = l @ replicate n 59"
    by (simp add: rstrip_def)
  moreover have "lstrip (l @ replicate n 59) = replicate n 59"
  proof -
    have "dropWhile isspace (l @ replicate n 59) = dropWhile isspace (replicate n 59)"
      using l by (intro dropWhile_append2) auto
    then show ?thesis using m by (simp add: lstrip_def isspace_not_semicolon)
  qed
  ultimately show ?thesis by (simp add: strip_def)
qed

lemma rstrip_chars_replicate: "rstrip_chars (py '';'') (replicate n 59) = []"
  by (simp add: rstrip_chars_def set_semicolon)

text \<open>
  Claim C9. A text of one or more semicolons, with any whitespace before and after, is
  rejected as a disallowed statement and not as empty: the text is tested for emptiness
  before the semicolons are stripped. The page shows the message about \<^verbatim>\<open>SELECT\<close> and
  the world is as before, so the store was not accessed.
\<close>

theorem semicolons_only_disallowed:
  assumes "\<forall>c\<in>set l. isspace c" and "\<forall>c\<in>set r. isspace c" and "0 < n"
  shows "query_gate (l @ replicate n 59 @ r) = DisallowedStatement
    \<and> run_clicked eng (l @ replicate n 59 @ r) w =
        ([StError (py ''Only SELECT queries are allowed in this beginner app (for safety).'')], w)"
proof -
  have s: "strip (l @ replicate n 59 @ r) = replicate n 59"
    using assms by (rule strip_semicolons_between)
  have e: "strip [] = []"
    by (simp add: strip_def lstrip_def rstrip_def)
  have f: "\<not> startswith (lower []) (py ''select'')"
    by (simp add: lower_def startswith_def py_simps)
  have "query_gate (l @ replicate n 59 @ r) = DisallowedStatement"
    using \<open>0 < n\<close>
    by (simp add: query_gate_def s rstrip_chars_replicate e f)
  then show ?thesis by (simp add: run_clicked_def)
qed

theorem semicolons_only_disallowed_witness:
  "isspace 32 \<and> (0::nat) < 3
   \<and> py '' '' @ replicate 3 59 @ py '' '' = py '' ;;; ''
   \<and> query_gate (py '' ;;; '') = DisallowedStatement
   \<and> run_clicked echo_engine (py '' ;;; '') \<lparr>db_file = None, open_conns = 0\<rparr> =
        ([StError (py ''Only SELECT queries are allowed in this beginner app (for safety).'')],
         \<lparr>db_file = None, open_conns = 0\<rparr>)"
proof -
  have h: "\<forall>c\<in>set (py '' ''). isspace c"
    by (simp add: py_simps isspace_def)
  have i: "isspace 32"
    by (simp add: isspace_def)
  have k: "py '' '' @ replicate 3 59 @ py '' '' = py '' ;;; ''"
    by (simp add: py_simps numeral_3_eq_3)
  show ?thesis
    using semicolons_only_disallowed [OF h h, of 3 echo_engine "\<lparr>db_file = None, open_conns = 0\<rparr>"] i k
    by simp
qed

section \<open>The first run\<close>

text \<open>
  Claim C3. When the file does not exist, \<^verbatim>\<open>init_db\<close> is \<^verbatim>\<open>reset_db\<close>: it succeeds and
  the file holds the seed data. When the file exists, \<^verbatim>\<open>init_db\<close> changes nothing: it
  opens no connection and the file, with every row in it, is as before. So a second call
  after a first has no effect.
\<close>

theorem init_db_first_run_only:
  "(db_file w = None \<longrightarrow> init_db w = reset_db w
      \<and> init_db w = Inr (w\<lparr>db_file := Some seed_database, open_conns := Suc (open_conns w)\<rparr>))
   \<and> (db_file w \<noteq> None \<longrightarrow> init_db w = Inr w)
   \<and> bind_res (init_db w) init_db = init_db w"
  by (auto simp add: init_db_def reset_db_total bind_res_def)

theorem init_db_first_run_only_witness:
  "db_file \<lparr>db_file = None, open_conns = 0\<rparr> = None
   \<and> init_db \<lparr>db_file = None, open_conns = 0\<rparr> = reset_db \<lparr>db_file = None, open_conns = 0\<rparr>
   \<and> init_db \<lparr>db_file = None, open_conns = 0\<rparr> = Inr \<lparr>db_file = Some seed_database, open_conns = 1\<rparr>
   \<and> db_file \<lparr>db_file = Some seed_database, open_conns = 1\<rparr> \<noteq> None
   \<and> init_db \<lparr>db_file = Some seed_database, open_conns = 1\<rparr>
       = Inr \<lparr>db_file = Some seed_database, open_conns = 1\<rparr>"
  using init_db_first_run_only [of "\<lparr>db_file = None, open_conns = 0\<rparr>"]
    init_db_first_run_only [of "\<lparr>db_file = Some seed_database, open_conns = 1\<rparr>"]
  by auto

text \<open>
  Claim C10. \<^verbatim>\<open>init_db\<close> looks at nothing but the existence of the file. When the file
  exists and holds neither table, \<^verbatim>\<open>init_db\<close> returns without a reset; a statement that
  reads \<^verbatim>\<open>users\<close> or \<^verbatim>\<open>orders\<close> then fails with the engine's \<^verbatim>\<open>no such table\<close>, and
  neither a run of the query handler nor the schema summary creates the tables.
\<close>

theorem init_db_keeps_file_without_tables:
  assumes "db_file w = Some db" and "db Users = None" and "db Orders = None"
  shows "init_db w = Inr w
    \<and> select_columns names t db = Inl (OperationalError (py ''no such table: '' @ ident t))
    \<and> select_count_where a t c v db = Inl (OperationalError (py ''no such table: '' @ ident t))
    \<and> orders_with_names db = Inl (OperationalError (py ''no such table: orders''))
    \<and> db_file (snd (run_clicked eng q w)) = Some db
    \<and> db_file (snd (get_schema_summary w)) = Some db"
proof -
  have n: "db t = None" using assms by (cases t) auto
  have s: "select_columns names t db = Inl (OperationalError (py ''no such table: '' @ ident t))"
    for names by (simp add: select_columns_def lookup_table_def bind_res_def n)
  have o: "select_columns names Orders db = Inl (OperationalError (py ''no such table: orders''))"
    for names using assms by (simp add: select_columns_def lookup_table_def bind_res_def py_simps)
  have r: "db_file (snd (run_clicked eng q w)) = Some db"
    using assms by (cases "query_gate q")
      (simp_all add: run_clicked_def run_query_engine split: sum.splits)
  show ?thesis
    using assms r
    by (simp add: init_db_def s o select_count_where_def orders_with_names_def bind_res_def
        get_schema_summary_def get_connection_def Let_def py_simps)
qed

theorem init_db_keeps_file_without_tables_witness:
  "db_file \<lparr>db_file = Some empty_database, open_conns = 0\<rparr> = Some empty_database
   \<and> empty_database Users = None \<and> empty_database Orders = None
   \<and> init_db \<lparr>db_file = Some empty_database, open_conns = 0\<rparr>
       = Inr \<lparr>db_file = Some empty_database, open_conns = 0\<rparr>
   \<and> select_columns [py ''id'', py ''name''] Users empty_database
       = Inl (OperationalError (py ''no such table: users''))"
proof -
  have h: "db_file \<lparr>db_file = Some empty_database, open_conns = 0\<rparr> = Some empty_database"
    by simp
  have u: "empty_database Users = None" and o: "empty_database Orders = None"
    by (simp_all add: empty_database_def)
  show ?thesis
    using init_db_keeps_file_without_tables [OF h u o, of "[py ''id'', py ''name'']" Users] h u o
    by (simp add: py_simps)
qed

section \<open>Connections\<close>

text \<open>
  Claim C4 does not hold of the program. Each operation opens a connection with
  \<^verbatim>\<open>get_connection\<close> and uses it in a \<^verbatim>\<open>with\<close> block, which commits or rolls back and does
  not close: after \<^verbatim>\<open>run_query\<close> (whether the engine returned or raised), after
  \<^verbatim>\<open>reset_db\<close> and after \<^verbatim>\<open>get_schema_summary\<close> one more connection is open than before.
  So it is when the user runs \<^verbatim>\<open>select * from nowhere\<close> and the engine refuses it: the
  page shows the error and the connection of that run is still open.
\<close>

theorem connection_left_open:
  "open_conns (snd (run_query eng query w)) = Suc (open_conns w)
   \<and> reset_db w = Inr (w\<lparr>db_file := Some seed_database, open_conns := Suc (open_conns w)\<rparr>)
   \<and> open_conns (snd (get_schema_summary w)) = Suc (open_conns w)
   \<and> run_clicked (refusing_engine (py ''no such table: nowhere'')) (py ''select * from nowhere'')
        \<lparr>db_file = Some seed_database, open_conns = 0\<rparr>
      = ([StError (py ''no such table: nowhere'')],
         \<lparr>db_file = Some seed_database, open_conns = 1\<rparr>)"
proof -
  have g: "query_gate (py ''select * from nowhere'') = Approved (py ''select * from nowhere'')"
    by (simp add: gate_defs py_simps)
  show ?thesis
    by (simp add: run_clicked_def g run_query_engine reset_db_total get_schema_summary_def
        get_connection_def Let_def refusing_engine_def)
qed

section \<open>Errors of the engine\<close>

text \<open>
  Claim C5. When the engine raises on a text, \<^verbatim>\<open>run_query\<close> raises the same exception
  (so it does for \<^verbatim>\<open>SELEC * FROM users\<close> handed to it directly). When the gate approved
  the text, the handler catches the exception and the page shows one error, the text of
  the exception as it is; the handler returns, and the file is as it was.
\<close>

theorem engine_error_shown:
  "(eng (case db_file w of None \<Rightarrow> empty_database | Some d \<Rightarrow> d) u = Inl exc \<longrightarrow>
      fst (run_query eng u w) = Inl exc)
   \<and> (query_gate q = Approved u
       \<and> eng (case db_file w of None \<Rightarrow> empty_database | Some d \<Rightarrow> d) u = Inl exc \<longrightarrow>
      fst (run_clicked eng q w) = [StError (str_exc exc)]
      \<and> db_file (snd (run_clicked eng q w))
          = Some (case db_file w of None \<Rightarrow> empty_database | Some d \<Rightarrow> d))"
  by (simp add: run_clicked_def run_query_engine)

theorem engine_error_shown_witness:
  "refusing_engine (py ''syntax error'') seed_database (py ''SELEC * FROM users'')
      = Inl (OperationalError (py ''syntax error''))
   \<and> fst (run_query (refusing_engine (py ''syntax error'')) (py ''SELEC * FROM users'')
        \<lparr>db_file = Some seed_database, open_conns = 0\<rparr>) = Inl (OperationalError (py ''syntax error''))
   \<and> query_gate (py ''select * from nowhere;'') = Approved (py ''select * from nowhere'')
   \<and> refusing_engine (py ''no such table: nowhere'') seed_database (py ''select * from nowhere'')
      = Inl (OperationalError (py ''no such table: nowhere''))
   \<and> fst (run_clicked (refusing_engine (py ''no such table: nowhere'')) (py ''select * from nowhere;'')
        \<lparr>db_file = Some seed_database, open_conns = 0\<rparr>) = [StError (py ''no such table: nowhere'')]"
proof -
  have g: "query_gate (py ''select * from nowhere;'') = Approved (py ''select * from nowhere'')"
    by (simp add: gate_defs py_simps)
  have e1: "refusing_engine (py ''syntax error'') seed_database (py ''SELEC * FROM users'')
      = Inl (OperationalError (py ''syntax error''))"
    by (simp add: refusing_engine_def)
  have e2: "refusing_engine (py ''no such table: nowhere'') seed_database (py ''select * from nowhere'')
      = Inl (OperationalError (py ''no such table: nowhere''))"
    by (simp add: refusing_engine_def)
  show ?thesis
    using engine_error_shown [of "refusing_engine (py ''syntax error'')"
        "\<lparr>db_file = Some seed_database, open_conns = 0\<rparr>" "py ''SELEC * FROM users''"
        "OperationalError (py ''syntax error'')"]
      engine_error_shown [of "refusing_engine (py ''no such table: nowhere'')"
        "\<lparr>db_file = Some seed_database, open_conns = 0\<rparr>" "py ''select * from nowhere''"
        "OperationalError (py ''no such table: nowhere'')" "py ''select * from nowhere;''"]
      g e1 e2
    by simp
qed

section \<open>The schema summary\<close>

lemma table_info_names:
  "getitem_columns [py ''name'', py ''type''] (table_info t db) =
     Inr [(py ''name'', map (\<lambda>c. SqlText (col_name c)) (case db t of None \<Rightarrow> [] | Some tb \<Rightarrow> tab_columns tb)),
          (py ''type'', map (\<lambda>c. SqlText (col_type c)) (case db t of None \<Rightarrow> [] | Some tb \<Rightarrow> tab_columns tb))]"
  by (simp add: getitem_columns_def table_info_def Let_def bind_res_def py_simps)

lemma schema_summary_declared:
  "fst (get_schema_summary w) = Inr
     [(py ''users'',
        [(py ''name'', map (\<lambda>c. SqlText (col_name c)) (declared_columns Users w)),
         (py ''type'', map (\<lambda>c. SqlText (col_type c)) (declared_columns Users w))]),
      (py ''orders'',
        [(py ''name'', map (\<lambda>c. SqlText (col_name c)) (declared_columns Orders w)),
         (py ''type'', map (\<lambda>c. SqlText (col_type c)) (declared_columns Orders w))])]"
  by (cases "db_file w")
    (simp_all add: get_schema_summary_def get_connection_def Let_def table_info_names
      bind_res_def declared_columns_def empty_database_def)

text \<open>
  Claim C7. After a reset the summary gives, for \<^verbatim>\<open>users\<close>, the columns id, name, email,
  city with the types INTEGER, TEXT, TEXT, TEXT, and for \<^verbatim>\<open>orders\<close> the columns id,
  user_id, amount, status, created_at with the types INTEGER, INTEGER, REAL, TEXT, TEXT,
  each in the order of declaration. The summary is read from the store: in any world
  it is the names and types of the columns that the file declares at that moment.
\<close>

theorem schema_summary_live:
  "bind_res (reset_db w) (\<lambda>w'. fst (get_schema_summary w')) = Inr
     [(py ''users'',
        [(py ''name'', [SqlText (py ''id''), SqlText (py ''name''), SqlText (py ''email''),
                        SqlText (py ''city'')]),
         (py ''type'', [SqlText (py ''INTEGER''), SqlText (py ''TEXT''), SqlText (py ''TEXT''),
                        SqlText (py ''TEXT'')])]),
      (py ''orders'',
        [(py ''name'', [SqlText (py ''id''), SqlText (py ''user_id''), SqlText (py ''amount''),
                        SqlText (py ''status''), SqlText (py ''created_at'')]),
         (py ''type'', [SqlText (py ''INTEGER''), SqlText (py ''INTEGER''), SqlText (py ''REAL''),
                        SqlText (py ''TEXT''), SqlText (py ''TEXT'')])])]
   \<and> fst (get_schema_summary w) = Inr
     [(py ''users'',
        [(py ''name'', map (\<lambda>c. SqlText (col_name c)) (declared_columns Users w)),
         (py ''type'', map (\<lambda>c. SqlText (col_type c)) (declared_columns Users w))]),
      (py ''orders'',
        [(py ''name'', map (\<lambda>c. SqlText (col_name c)) (declared_columns Orders w)),
         (py ''type'', map (\<lambda>c. SqlText (col_type c)) (declared_columns Orders w))])]"
proof
  show "fst (get_schema_summary w) = Inr
     [(py ''users'',
        [(py ''name'', map (\<lambda>c. SqlText (col_name c)) (declared_columns Users w)),
         (py ''type'', map (\<lambda>c. SqlText (col_type c)) (declared_columns Users w))]),
      (py ''orders'',
        [(py ''name'', map (\<lambda>c. SqlText (col_name c)) (declared_columns Orders w)),
         (py ''type'', map (\<lambda>c. SqlText (col_type c)) (declared_columns Orders w))])]"
    by (rule schema_summary_declared)
  show "bind_res (reset_db w) (\<lambda>w'. fst (get_schema_summary w')) = Inr
     [(py ''users'',
        [(py ''name'', [SqlText (py ''id''), SqlText (py ''name''), SqlText (py ''email''),
                        SqlText (py ''city'')]),
         (py ''type'', [SqlText (py ''INTEGER''), SqlText (py ''TEXT''), SqlText (py ''TEXT''),
                        SqlText (py ''TEXT'')])]),
      (py ''orders'',
        [(py ''name'', [SqlText (py ''id''), SqlText (py ''user_id''), SqlText (py ''amount''),
                        SqlText (py ''status''), SqlText (py ''created_at'')]),
         (py ''type'', [SqlText (py ''INTEGER''), SqlText (py ''INTEGER''), SqlText (py ''REAL''),
                        SqlText (py ''TEXT''), SqlText (py ''TEXT'')])])]"
    by (simp add: reset_db_total bind_res_def schema_summary_declared declared_columns_def
        seed_database_def users_columns_def orders_columns_def)
qed

section \<open>The paid orders\<close>

lemma paid_query_approved: "query_gate paid_query = Approved paid_query"
  by (simp add: paid_query_def gate_defs py_simps)

lemma seed_count_paid:
  "select_count_where (py ''total_paid'') Orders (py ''status'') (SqlText (py ''PAID'')) seed_database
     = Inr [(py ''total_paid'', [SqlInt 4])]"
  by (simp add: select_count_where_def statement_defs seed_database_def orders_columns_def py_simps)

lemma str_nat_1: "str_nat (Suc 0) = [49]"
  by (simp add: str_nat.simps)

text \<open>
  Claim C8. Let the engine evaluate the text
  \<^verbatim>\<open>SELECT COUNT(*) AS total_paid FROM orders WHERE status='PAID'\<close> as SQL defines it. Then
  after a reset \<^verbatim>\<open>run_query\<close> returns for it one row with \<open>total_paid\<close> equal to 4, and
  the query handler shows that frame and reports one row. Of the seven seeded orders
  exactly four have the status PAID: 500 of Adarsh, 1299 of Pranjali, 799 of Amit and
  1800 of Rahul.
\<close>

theorem count_paid_after_reset:
  assumes "\<forall>db. eng db paid_query =
     select_count_where (py ''total_paid'') Orders (py ''status'') (SqlText (py ''PAID'')) db"
  shows "bind_res (reset_db w) (\<lambda>w'. Inr (fst (run_clicked eng paid_query w'))) = Inr
       [StDataframe [(py ''total_paid'', [SqlInt 4])], StSuccess (py ''Returned 1 rows '' @ [9989])]
    \<and> bind_res (reset_db w) (\<lambda>w'. fst (run_query eng paid_query w'))
        = Inr [(py ''total_paid'', [SqlInt 4])]
    \<and> map_option length (rows_of Orders seed_database) = Some 7
    \<and> orders_of_status (py ''PAID'') seed_database = Inr
       [[SqlText (py ''Adarsh''), SqlReal 500, SqlText (py ''PAID''), SqlText (py ''2026-01-10'')],
        [SqlText (py ''Pranjali''), SqlReal 1299, SqlText (py ''PAID''), SqlText (py ''2026-01-11'')],
        [SqlText (py ''Amit''), SqlReal 799, SqlText (py ''PAID''), SqlText (py ''2026-01-12'')],
        [SqlText (py ''Rahul''), SqlReal 1800, SqlText (py ''PAID''), SqlText (py ''2026-01-13'')]]"
proof (intro conjI)
  have q: "fst (run_query eng paid_query
      (w\<lparr>db_file := Some seed_database, open_conns := Suc (open_conns w)\<rparr>))
      = Inr [(py ''total_paid'', [SqlInt 4])]"
    using assms by (simp add: run_query_engine seed_count_paid)
  show "bind_res (reset_db w) (\<lambda>w'. fst (run_query eng paid_query w'))
        = Inr [(py ''total_paid'', [SqlInt 4])]"
    using q by (simp add: reset_db_total bind_res_def)
  have c: "fst (run_clicked eng paid_query
      (w\<lparr>db_file := Some seed_database, open_conns := Suc (open_conns w)\<rparr>))
      = [StDataframe [(py ''total_paid'', [SqlInt 4])],
         StSuccess (py ''Returned '' @ str_nat (len_df [(py ''total_paid'', [SqlInt 4])])
           @ py '' rows '' @ [9989])]"
    using assms by (simp add: run_clicked_def paid_query_approved run_query_engine seed_count_paid)
  show "bind_res (reset_db w) (\<lambda>w'. Inr (fst (run_clicked eng paid_query w'))) = Inr
       [StDataframe [(py ''total_paid'', [SqlInt 4])], StSuccess (py ''Returned 1 rows '' @ [9989])]"
    by (simp add: reset_db_total bind_res_def c str_nat_1 py_simps)
  show "map_option length (rows_of Orders seed_database) = Some 7"
    by (simp add: rows_of_def seed_database_def)
  show "orders_of_status (py ''PAID'') seed_database = Inr
       [[SqlText (py ''Adarsh''), SqlReal 500, SqlText (py ''PAID''), SqlText (py ''2026-01-10'')],
        [SqlText (py ''Pranjali''), SqlReal 1299, SqlText (py ''PAID''), SqlText (py ''2026-01-11'')],
        [SqlText (py ''Amit''), SqlReal 799, SqlText (py ''PAID''), SqlText (py ''2026-01-12'')],
        [SqlText (py ''Rahul''), SqlReal 1800, SqlText (py ''PAID''), SqlText (py ''2026-01-13'')]]"
    by (simp add: orders_of_status_def orders_with_names_def statement_defs seed_database_def
        users_columns_def orders_columns_def py_simps)
qed

theorem count_paid_after_reset_witness:
  "(\<forall>db. counting_engine db paid_query =
     select_count_where (py ''total_paid'') Orders (py ''status'') (SqlText (py ''PAID'')) db)
   \<and> bind_res (reset_db \<lparr>db_file = None, open_conns = 0\<rparr>)
        (\<lambda>w'. fst (run_query counting_engine paid_query w'))
      = Inr [(py ''total_paid'', [SqlInt 4])]"
proof -
  have h: "\<forall>db. counting_engine db paid_query =
     select_count_where (py ''total_paid'') Orders (py ''status'') (SqlText (py ''PAID'')) db"
    by (simp add: counting_engine_def)
  show ?thesis
    using count_paid_after_reset [of counting_engine "\<lparr>db_file = None, open_conns = 0\<rparr>"] h
    by blast
qed

end
